theory Spec2Isabelle
  imports Complex_Main
begin

section \<open>JavaScript numbers\<close>

text \<open>
  The source computes with JavaScript numbers. They are modelled as exact real numbers
  plus the value \<open>NaN\<close>: rounding, overflow and the two infinities of IEEE doubles are
  outside this model. Where a rounding error decides what the code does, the computation
  is modelled a second time with the rounding of binary64 (\<open>round64\<close> below). Every operation propagates \<open>NaN\<close>, and every comparison with
  \<open>NaN\<close> is false, as in JavaScript. The only divisors in the source are the literals
  \<open>2\<close> and \<open>100\<close>; a division by zero, which JavaScript answers with a non-finite
  value, is answered with \<open>NaN\<close> here.
\<close>

datatype jsnum = NaN | Fin real

instantiation jsnum :: "{zero, one, plus, minus, uminus, times, inverse, ord}"
begin

definition zero_jsnum :: jsnum where
  "zero_jsnum = Fin 0"

definition one_jsnum :: jsnum where
  "one_jsnum = Fin 1"

definition plus_jsnum :: "jsnum \<Rightarrow> jsnum \<Rightarrow> jsnum" where
  "plus_jsnum a b = (case (a, b) of (Fin r, Fin s) \<Rightarrow> Fin (r + s) | _ \<Rightarrow> NaN)"

definition minus_jsnum :: "jsnum \<Rightarrow> jsnum \<Rightarrow> jsnum" where
  "minus_jsnum a b = (case (a, b) of (Fin r, Fin s) \<Rightarrow> Fin (r - s) | _ \<Rightarrow> NaN)"

definition uminus_jsnum :: "jsnum \<Rightarrow> jsnum" where
  "uminus_jsnum a = (case a of Fin r \<Rightarrow> Fin (- r) | NaN \<Rightarrow> NaN)"

definition times_jsnum :: "jsnum \<Rightarrow> jsnum \<Rightarrow> jsnum" where
  "times_jsnum a b = (case (a, b) of (Fin r, Fin s) \<Rightarrow> Fin (r * s) | _ \<Rightarrow> NaN)"

definition divide_jsnum :: "jsnum \<Rightarrow> jsnum \<Rightarrow> jsnum" where
  "divide_jsnum a b =
     (case (a, b) of (Fin r, Fin s) \<Rightarrow> (if s = 0 then NaN else Fin (r / s)) | _ \<Rightarrow> NaN)"

definition inverse_jsnum :: "jsnum \<Rightarrow> jsnum" where
  "inverse_jsnum a = (case a of Fin s \<Rightarrow> (if s = 0 then NaN else Fin (1 / s)) | NaN \<Rightarrow> NaN)"

definition less_eq_jsnum :: "jsnum \<Rightarrow> jsnum \<Rightarrow> bool" where
  "less_eq_jsnum a b = (case (a, b) of (Fin r, Fin s) \<Rightarrow> r \<le> s | _ \<Rightarrow> False)"

definition less_jsnum :: "jsnum \<Rightarrow> jsnum \<Rightarrow> bool" where
  "less_jsnum a b = (case (a, b) of (Fin r, Fin s) \<Rightarrow> r < s | _ \<Rightarrow> False)"

instance ..

end

instance jsnum :: semigroup_add
proof
  fix a b c :: jsnum
  show "a + b + c = a + (b + c)"
    by (cases a; cases b; cases c) (simp_all add: plus_jsnum_def)
qed

instance jsnum :: numeral ..

text \<open>\<open>Math.sqrt\<close>: \<open>NaN\<close> below zero.\<close>

definition Math_sqrt :: "jsnum \<Rightarrow> jsnum" where
  "Math_sqrt a = (case a of Fin r \<Rightarrow> (if r < 0 then NaN else Fin (sqrt r)) | NaN \<Rightarrow> NaN)"

text \<open>\<open>Math.pow\<close> at an exponent that is a natural number (the source only squares);
  \<open>Math.pow(NaN, 0)\<close> is \<open>1\<close>.\<close>

definition Math_pow :: "jsnum \<Rightarrow> nat \<Rightarrow> jsnum" where
  "Math_pow a n =
     (if n = 0 then Fin 1 else case a of Fin r \<Rightarrow> Fin (r ^ n) | NaN \<Rightarrow> NaN)"

definition isNaN :: "jsnum \<Rightarrow> bool" where
  "isNaN a = (case a of NaN \<Rightarrow> True | Fin r \<Rightarrow> False)"

section \<open>Dimensions and their conversion\<close>

text \<open>A \<open>width\<close> or \<open>height\<close> of the configuration: \<open>number | string\<close>.\<close>

datatype dimension = DimNumber jsnum | DimString string

text \<open>
  \<open>Number(s)\<close> at a string, for the decimal literals of the language: white space
  around an optional sign, digits with an optional fraction, and an optional exponent;
  the empty string is \<open>0\<close> and everything that is no literal is \<open>NaN\<close>. The
  hexadecimal, octal and binary literals and \<open>Infinity\<close> are not modelled: this
  function answers them with \<open>NaN\<close>, which JavaScript does not.
\<close>

definition isStrWhiteSpaceChar :: "char \<Rightarrow> bool" where
  "isStrWhiteSpaceChar c = (of_char c \<in> set [9, 10, 11, 12, 13, 32 :: nat])"

definition trim :: "string \<Rightarrow> string" where
  "trim s = rev (dropWhile isStrWhiteSpaceChar (rev (dropWhile isStrWhiteSpaceChar s)))"

definition isDecimalDigit :: "char \<Rightarrow> bool" where
  "isDecimalDigit c = (48 \<le> (of_char c :: nat) \<and> (of_char c :: nat) \<le> 57)"

definition DecimalDigits :: "string \<Rightarrow> nat" where
  "DecimalDigits s = foldl (\<lambda>acc c. 10 * acc + (of_char c - 48)) 0 s"

definition splitSign :: "string \<Rightarrow> real \<times> string" where
  "splitSign s =
     (case s of
        [] \<Rightarrow> (1, [])
      | c # r \<Rightarrow> if c = CHR ''-'' then (- 1, r) else if c = CHR ''+'' then (1, r) else (1, s))"

definition StrMantissa :: "string \<Rightarrow> real option" where
  "StrMantissa s =
     (let ip = takeWhile isDecimalDigit s; rest = dropWhile isDecimalDigit s in
      case rest of
        [] \<Rightarrow> if ip = [] then None else Some (real (DecimalDigits ip))
      | c # fp \<Rightarrow>
          if c = CHR ''.'' \<and> list_all isDecimalDigit fp \<and> (ip \<noteq> [] \<or> fp \<noteq> [])
          then Some (real (DecimalDigits ip) + real (DecimalDigits fp) / 10 ^ length fp)
          else None)"

definition StrExponent :: "string \<Rightarrow> real option" where
  "StrExponent s =
     (case s of
        [] \<Rightarrow> Some 1
      | c # r \<Rightarrow>
          (let (sg, ds) = splitSign r in
           if ds \<noteq> [] \<and> list_all isDecimalDigit ds
           then Some (if sg < 0 then 1 / 10 ^ DecimalDigits ds else 10 ^ DecimalDigits ds)
           else None))"

definition Number_of_string :: "string \<Rightarrow> jsnum" where
  "Number_of_string s =
     (let t = trim s in
      if t = [] then Fin 0
      else
        (let (sg, u) = splitSign t;
             isExp = (\<lambda>c. c = CHR ''e'' \<or> c = CHR ''E'');
             m = takeWhile (\<lambda>c. \<not> isExp c) u;
             e = dropWhile (\<lambda>c. \<not> isExp c) u
         in case (StrMantissa m, StrExponent e) of
              (Some a, Some b) \<Rightarrow> Fin (sg * a * b)
            | _ \<Rightarrow> NaN))"

text \<open>
  \<open>convertDimensionToNumber\<close>: a string with a percent sign is a share of
  \<open>screenDimension\<close> (\<open>replace(/%/, '')\<close> removes the first percent sign only);
  a number is returned as it is; any other string goes through \<open>Number\<close>.
\<close>

definition convertDimensionToNumber :: "dimension \<Rightarrow> jsnum \<Rightarrow> jsnum" where
  "convertDimensionToNumber dimension screenDimension =
     (case dimension of
        DimString s \<Rightarrow>
          if CHR ''%'' \<in> set s
          then (let decimal = Number_of_string (remove1 (CHR ''%'') s) / 100
                in decimal * screenDimension)
          else Number_of_string s
      | DimNumber n \<Rightarrow> n)"

section \<open>The placement engine\<close>

record TooltipCoord =
  coord_x :: jsnum
  coord_y :: jsnum

text \<open>A point \<open>[x, y]\<close> of the source is a pair.\<close>

type_synonym point = "jsnum \<times> jsnum"

definition getArea :: "jsnum \<Rightarrow> jsnum \<Rightarrow> jsnum" where
  "getArea a b = a * b"

definition getPointDistance :: "point \<Rightarrow> point \<Rightarrow> jsnum" where
  "getPointDistance a b =
     Math_sqrt (Math_pow (fst a - fst b) 2 + Math_pow (snd a - snd b) 2)"

record AreaEntry =
  area :: jsnum
  id' :: nat

text \<open>\<open>Array.prototype.map\<close> with the index as second argument.\<close>

definition map_indexed :: "('a \<Rightarrow> nat \<Rightarrow> 'b) \<Rightarrow> 'a list \<Rightarrow> 'b list" where
  "map_indexed f xs = map (\<lambda>(each, index). f each index) (zip xs [0..<length xs])"

text \<open>
  \<open>Array.prototype.sort\<close> with a comparison function, as the stable sort the language
  requires since ES2019: an element moves behind another one only when the comparison
  is positive (a comparison that is \<open>NaN\<close> counts as zero).
\<close>

fun sort_insert :: "('a \<Rightarrow> 'a \<Rightarrow> jsnum) \<Rightarrow> 'a \<Rightarrow> 'a list \<Rightarrow> 'a list" where
  "sort_insert cmp a [] = [a]"
| "sort_insert cmp a (b # bs) =
     (if cmp a b > 0 then b # sort_insert cmp a bs else a # b # bs)"

fun array_sort :: "('a \<Rightarrow> 'a \<Rightarrow> jsnum) \<Rightarrow> 'a list \<Rightarrow> 'a list" where
  "array_sort cmp [] = []"
| "array_sort cmp (a # as) = sort_insert cmp a (array_sort cmp as)"

text \<open>Reading \<open>xs[i]\<close>: \<open>undefined\<close> out of range.\<close>

definition index_read :: "'a list \<Rightarrow> nat \<Rightarrow> 'a option" where
  "index_read xs i = (if i < length xs then Some (xs ! i) else None)"

text \<open>Reading a property of \<open>undefined\<close> throws a \<open>TypeError\<close>.\<close>

datatype fault = TypeError

text \<open>Line 69: the centre of the anchor.\<close>

definition center_of :: "jsnum \<Rightarrow> jsnum \<Rightarrow> jsnum \<Rightarrow> jsnum \<Rightarrow> point" where
  "center_of x y width height = (x + width / 2, y + height / 2)"

text \<open>Lines 70 to 87: the four edge points, the four distances, the four areas.\<close>

definition quadrantAreas :: "point \<Rightarrow> jsnum \<Rightarrow> jsnum \<Rightarrow> AreaEntry list" where
  "quadrantAreas center screenWidth screenHeight =
     (let pOne = (fst center, 0);
          pTwo = (screenWidth, snd center);
          pThree = (fst center, screenHeight);
          pFour = (0, snd center);
          vOne = getPointDistance center pOne;
          vTwo = getPointDistance center pTwo;
          vThree = getPointDistance center pThree;
          vFour = getPointDistance center pFour
      in map_indexed (\<lambda>each index. \<lparr>area = each, id' = index\<rparr>)
           [getArea vOne vFour, getArea vOne vTwo, getArea vTwo vThree, getArea vThree vFour])"

text \<open>Lines 89 and 111: sort by decreasing area, take the index of the first entry.\<close>

definition quadrantIndex :: "AreaEntry list \<Rightarrow> fault + nat" where
  "quadrantIndex areas =
     (let sortedArea = array_sort (\<lambda>a b. area b - area a) areas
      in case sortedArea of [] \<Rightarrow> Inl TypeError | e # _ \<Rightarrow> Inr (id' e))"

definition dX :: jsnum where
  "dX = 1 / 1000"

definition directionCorrection :: "(jsnum \<times> jsnum) list" where
  "directionCorrection = [(- 1, - 1), (1, - 1), (1, 1), (- 1, 1)]"

definition displaceReferencePoint :: "jsnum \<Rightarrow> (jsnum \<times> jsnum) list" where
  "displaceReferencePoint tooltipWidth =
     [(- tooltipWidth, 0), (0, 0), (0, 0), (- tooltipWidth, 0)]"

text \<open>The two closures of lines 113 to 119, with what they capture as arguments
  (\<open>dc\<close> is \<open>directionCorrection[qIndex]\<close>).\<close>

definition getWithPointerOffsetY :: "bool \<Rightarrow> jsnum \<times> jsnum \<Rightarrow> jsnum" where
  "getWithPointerOffsetY withPointer dc = (if withPointer then 10 * snd dc else 0)"

definition getWithPointerOffsetX :: "bool \<Rightarrow> point \<Rightarrow> jsnum \<times> jsnum \<Rightarrow> jsnum" where
  "getWithPointerOffsetX withPointer center dc =
     (if withPointer then fst center - 18 * fst dc else fst center)"

text \<open>Lines 121 to 124: the x before clamping (\<open>drp\<close> is
  \<open>displaceReferencePoint[qIndex]\<close>).\<close>

definition preClampX :: "bool \<Rightarrow> point \<Rightarrow> jsnum \<times> jsnum \<Rightarrow> jsnum \<times> jsnum \<Rightarrow> jsnum" where
  "preClampX withPointer center dc drp =
     getWithPointerOffsetX withPointer center dc + (dX * fst dc + fst drp)"

definition constraintX :: "jsnum \<Rightarrow> nat \<Rightarrow> jsnum \<Rightarrow> jsnum \<Rightarrow> jsnum \<Rightarrow> jsnum" where
  "constraintX newX qIndex x' screenWidth tooltipWidth =
     (if qIndex = 0 \<or> qIndex = 3 then
        (let maxWidth = (if newX > screenWidth then screenWidth - 10 else newX)
         in if newX < 1 then 10 else maxWidth)
      else if qIndex = 1 \<or> qIndex = 2 then
        (let leftOverSpace = screenWidth - newX
         in if leftOverSpace \<ge> tooltipWidth then newX
            else newX - (tooltipWidth - leftOverSpace + 10))
      else 0)"

text \<open>
  \<open>getTooltipCoordinate\<close>. Its first argument is the width that
  \<open>Dimensions.get('window')\<close> reports when the function runs; the others are the
  source's, in its order.
\<close>

definition getTooltipCoordinate ::
  "jsnum \<Rightarrow> jsnum \<Rightarrow> jsnum \<Rightarrow> jsnum \<Rightarrow> jsnum \<Rightarrow> jsnum \<Rightarrow> jsnum \<Rightarrow> dimension \<Rightarrow> bool
     \<Rightarrow> fault + TooltipCoord" where
  "getTooltipCoordinate screenDims_width x y width height screenWidth screenHeight
       receivedTooltipWidth withPointer =
     (let tooltipWidth = convertDimensionToNumber receivedTooltipWidth screenDims_width;
          center = center_of x y width height;
          dY = height / 2
      in case quadrantIndex (quadrantAreas center screenWidth screenHeight) of
           Inl e \<Rightarrow> Inl e
         | Inr qIndex \<Rightarrow>
             (case (index_read directionCorrection qIndex,
                    index_read (displaceReferencePoint tooltipWidth) qIndex) of
                (Some dc, Some drp) \<Rightarrow>
                  (let newX = preClampX withPointer center dc drp
                   in Inr \<lparr>coord_x =
                             constraintX newX qIndex (fst center) screenWidth tooltipWidth,
                           coord_y =
                             snd center + (dY * snd dc + snd drp)
                               + getWithPointerOffsetY withPointer dc\<rparr>)
              | _ \<Rightarrow> Inl TypeError))"

section \<open>The vertical placement in binary64\<close>



text \<open>
  The y of \<open>getTooltipCoordinate\<close>, one rounding \<open>rnd\<close> after each operation of the
  source, in its order: \<open>center[1]\<close> is \<open>y + height / 2\<close> (line 69), \<open>dY\<close> is
  \<open>height / 2\<close> (line 93), the pointer offset is \<open>10 * sy\<close> or 0 (lines 113 and
  114), and the result is
  \<open>center[1] + (dY * sy + 0) + getWithPointerOffsetY()\<close> (lines 128 to 132), where
  \<open>sy\<close> is \<open>directionCorrection[qIndex][1]\<close> and the 0 is
  \<open>displaceReferencePoint[qIndex][1]\<close>. With the identity for \<open>rnd\<close> it is the y of
  the exact model above; with \<open>round64\<close> it is the y the code computes.
\<close>

definition coordinate_y_rounded ::
  "(real \<Rightarrow> real) \<Rightarrow> real \<Rightarrow> real \<Rightarrow> real \<Rightarrow> bool \<Rightarrow> real" where
  "coordinate_y_rounded rnd y height sy withPointer =
     (let center_y = rnd (y + rnd (height / 2));
          dY = rnd (height / 2);
          offsetY = (if withPointer then rnd (10 * sy) else 0)
      in rnd (rnd (center_y + rnd (rnd (dY * sy) + 0)) + offsetY))"


section \<open>The component\<close>

text \<open>
  What the component reads from the platform: \<open>I18nManager.isRTL\<close>, the constants of
  \<open>helpers.ts\<close>, and the width of \<open>Dimensions.get('window')\<close> that
  \<open>getTooltipCoordinate\<close> reads at each call.
\<close>

record host =
  isRTL :: bool
  isIOS :: bool
  ScreenWidth :: jsnum
  ScreenHeight :: jsnum
  statusBarOffset :: jsnum
  windowWidth :: jsnum

text \<open>
  The props the model needs. \<open>isVisibleProp\<close> is \<open>None\<close> for \<open>undefined\<close>;
  \<open>onVisibilityChange\<close> says whether the callback was supplied (the source calls it
  with \<open>?.\<close>); \<open>onClose\<close> has a default and can always be called.
\<close>

record TooltipProps =
  withPointer :: bool
  height :: dimension
  width :: dimension
  isVisibleProp :: "bool option"
  onVisibilityChange :: bool

text \<open>The state of the hooks; \<open>renderedElement\<close> says whether the ref is attached.\<close>

record TooltipState =
  internalVisible :: bool
  yOffset :: jsnum
  xOffset :: jsnum
  elementWidth :: jsnum
  elementHeight :: jsnum
  renderedElement :: bool

text \<open>The defaults of the props (lines 86 to 101) and the initial values of the hooks
  (lines 103 to 110).\<close>

definition defaultProps :: TooltipProps where
  "defaultProps =
     \<lparr>withPointer = True, height = DimNumber 40, width = DimNumber 150,
      isVisibleProp = None, onVisibilityChange = False\<rparr>"

definition initialState :: TooltipState where
  "initialState =
     \<lparr>internalVisible = False, yOffset = 0, xOffset = 0, elementWidth = 0,
      elementHeight = 0, renderedElement = False\<rparr>"


text \<open>The fields of the popover's style that depend on the placement.\<close>

record TooltipStyle =
  style_left :: "jsnum option"
  style_right :: "jsnum option"
  style_width :: dimension
  style_height :: dimension
  style_top :: "jsnum option"
  style_bottom :: "jsnum option"

text \<open>
  \<open>getTooltipStyle\<close> (lines 181 to 221), with \<open>containerStyle\<close> at its default
  \<open>{}\<close>. The three branches on \<open>typeof height\<close> and \<open>pastMiddleLine\<close> are the
  three cases, in the source's order.
\<close>

definition getTooltipStyle ::
  "host \<Rightarrow> TooltipProps \<Rightarrow> TooltipState \<Rightarrow> fault + TooltipStyle \<times> bool" where
  "getTooltipStyle h p s =
     (case getTooltipCoordinate (windowWidth h) (xOffset s) (yOffset s) (elementWidth s)
             (elementHeight s) (ScreenWidth h) (ScreenHeight h) (width p) (withPointer p) of
        Inl e \<Rightarrow> Inl e
      | Inr c \<Rightarrow>
          (let x = coord_x c;
               y = coord_y c;
               tooltipStyle =
                 \<lparr>style_left = (if isRTL h then None else Some x),
                  style_right = (if isRTL h then Some x else None),
                  style_width = width p,
                  style_height = height p,
                  style_top = None,
                  style_bottom = None\<rparr>;
               pastMiddleLine = (yOffset s > y)
           in Inr (case (height p, pastMiddleLine) of
                     (DimString _, True) \<Rightarrow>
                       tooltipStyle\<lparr>style_bottom := Some (ScreenHeight h - y - statusBarOffset h),
                                    style_top := None\<rparr>
                   | (DimNumber n, True) \<Rightarrow>
                       tooltipStyle\<lparr>style_top := Some (y - n + statusBarOffset h)\<rparr>
                   | (_, False) \<Rightarrow>
                       tooltipStyle\<lparr>style_top := Some (y + statusBarOffset h)\<rparr>,
                   pastMiddleLine)))"

subsection \<open>Visibility\<close>

text \<open>What a handler asks of the outside, in the order it does.\<close>

datatype call = MeasureInWindow | OnVisibilityChange bool | OnClose

text \<open>Lines 113 and 114.\<close>

definition isControlled :: "TooltipProps \<Rightarrow> bool" where
  "isControlled p = (isVisibleProp p \<noteq> None)"

definition isVisible :: "TooltipProps \<Rightarrow> TooltipState \<Rightarrow> bool" where
  "isVisible p s = (case isVisibleProp p of Some v \<Rightarrow> v | None \<Rightarrow> internalVisible s)"

text \<open>\<open>getElementPosition\<close>: \<open>renderedElement.current?.measureInWindow(...)\<close>.\<close>

definition getElementPosition :: "TooltipState \<Rightarrow> call list" where
  "getElementPosition s = (if renderedElement s then [MeasureInWindow] else [])"

text \<open>The callback of \<open>measureInWindow\<close>: the four setters.\<close>

definition measured :: "jsnum \<Rightarrow> jsnum \<Rightarrow> jsnum \<Rightarrow> jsnum \<Rightarrow> TooltipState \<Rightarrow> TooltipState" where
  "measured pageOffsetX pageOffsetY w h s =
     s\<lparr>xOffset := pageOffsetX, yOffset := pageOffsetY, elementWidth := w, elementHeight := h\<rparr>"

text \<open>
  \<open>toggleTooltip\<close> (lines 127 to 149): the state after the call and the calls it
  makes. The updater given to \<open>setInternalVisible\<close> is run once, on the current state.
\<close>

definition toggleTooltip ::
  "host \<Rightarrow> TooltipProps \<Rightarrow> TooltipState \<Rightarrow> TooltipState \<times> call list" where
  "toggleTooltip h p s =
     (if isControlled p then
        (s, getElementPosition s
            @ (if onVisibilityChange p then [OnVisibilityChange (\<not> isVisible p s)] else [])
            @ (if isVisible p s \<and> \<not> isIOS h then [OnClose] else []))
      else
        (s\<lparr>internalVisible := \<not> internalVisible s\<rparr>,
         getElementPosition s
           @ (if internalVisible s \<and> \<not> isIOS h then [OnClose] else [])))"

text \<open>
  The life of one widget: the parent renders it again with props of its choice, the
  trigger fires, a measurement completes. A widget is its current props and its state.
\<close>

datatype event = Render TooltipProps | Trigger | Measured jsnum jsnum jsnum jsnum

record widget =
  props :: TooltipProps
  state :: TooltipState

fun step :: "host \<Rightarrow> widget \<Rightarrow> event \<Rightarrow> widget \<times> call list" where
  "step h w (Render p) = (w\<lparr>props := p\<rparr>, [])"
| "step h w Trigger =
     (let (s, cs) = toggleTooltip h (props w) (state w) in (w\<lparr>state := s\<rparr>, cs))"
| "step h w (Measured px py ew eh) = (w\<lparr>state := measured px py ew eh (state w)\<rparr>, [])"

fun run :: "host \<Rightarrow> widget \<Rightarrow> event list \<Rightarrow> widget \<times> call list" where
  "run h w [] = (w, [])"
| "run h w (e # es) =
     (let (w', cs) = step h w e; (w'', cs') = run h w' es in (w'', cs @ cs'))"

definition is_OnVisibilityChange :: "call \<Rightarrow> bool" where
  "is_OnVisibilityChange c = (case c of OnVisibilityChange _ \<Rightarrow> True | _ \<Rightarrow> False)"

definition keepsMode :: "TooltipProps \<Rightarrow> event \<Rightarrow> bool" where
  "keepsMode p e = (case e of Render p' \<Rightarrow> isControlled p' = isControlled p | _ \<Rightarrow> True)"

section \<open>The specification's selection of the quadrant\<close>

text \<open>
  The design's words for steps 3 to 5 of the placement: the Euclidean distance from the
  centre to the four edge points, the four areas in the fixed order top-left, top-right,
  bottom-right, bottom-left, and the first quadrant, in that order, whose area no other
  exceeds.
\<close>

definition spec_distance :: "real \<times> real \<Rightarrow> real \<times> real \<Rightarrow> real" where
  "spec_distance p q = sqrt ((fst p - fst q)\<^sup>2 + (snd p - snd q)\<^sup>2)"

definition spec_areas :: "real \<times> real \<Rightarrow> real \<Rightarrow> real \<Rightarrow> real list" where
  "spec_areas c W H =
     (let top = (fst c, 0); right = (W, snd c); bottom = (fst c, H); left = (0, snd c)
      in [spec_distance c top * spec_distance c left,
          spec_distance c top * spec_distance c right,
          spec_distance c right * spec_distance c bottom,
          spec_distance c bottom * spec_distance c left])"

definition spec_largest :: "real list \<Rightarrow> nat option" where
  "spec_largest as =
     (case filter (\<lambda>i. list_all (\<lambda>a. a \<le> as ! i) as) [0..<length as] of
        [] \<Rightarrow> None
      | i # _ \<Rightarrow> Some i)"

section \<open>Arithmetic of the number model\<close>

lemma Fin_plus [simp]: "Fin a + Fin b = Fin (a + b)"
  by (simp add: plus_jsnum_def)

lemma Fin_minus [simp]: "Fin a - Fin b = Fin (a - b)"
  by (simp add: minus_jsnum_def)

lemma Fin_times [simp]: "Fin a * Fin b = Fin (a * b)"
  by (simp add: times_jsnum_def)

lemma Fin_uminus [simp]: "- Fin a = Fin (- a)"
  by (simp add: uminus_jsnum_def)

lemma Fin_divide [simp]: "b \<noteq> 0 \<Longrightarrow> Fin a / Fin b = Fin (a / b)"
  by (simp add: divide_jsnum_def)

lemma Fin_less [simp]: "Fin a < Fin b \<longleftrightarrow> a < b"
  by (simp add: less_jsnum_def)

lemma Fin_less_eq [simp]: "Fin a \<le> Fin b \<longleftrightarrow> a \<le> b"
  by (simp add: less_eq_jsnum_def)

lemma NaN_plus [simp]: "NaN + a = NaN" "a + NaN = NaN"
  by (simp_all add: plus_jsnum_def split: jsnum.splits)

lemma NaN_minus [simp]: "NaN - a = NaN" "a - NaN = NaN"
  by (simp_all add: minus_jsnum_def split: jsnum.splits)

lemma NaN_times [simp]: "NaN * a = NaN" "a * NaN = NaN"
  by (simp_all add: times_jsnum_def split: jsnum.splits)

lemma NaN_uminus [simp]: "- NaN = NaN"
  by (simp add: uminus_jsnum_def)

lemma NaN_divide [simp]: "NaN / a = NaN" "a / NaN = NaN"
  by (simp_all add: divide_jsnum_def split: jsnum.splits)

lemma NaN_less [simp]: "\<not> NaN < a" "\<not> a < NaN"
  by (simp_all add: less_jsnum_def split: jsnum.splits)

lemma NaN_less_eq [simp]: "\<not> NaN \<le> a" "\<not> a \<le> NaN"
  by (simp_all add: less_eq_jsnum_def split: jsnum.splits)

lemma zero_Fin [simp]: "(0::jsnum) = Fin 0"
  by (simp add: zero_jsnum_def)

lemma one_Fin [simp]: "(1::jsnum) = Fin 1"
  by (simp add: one_jsnum_def)

lemma numeral_Fin [simp]: "(numeral k :: jsnum) = Fin (numeral k)"
proof (induction k)
  case One
  show ?case by (simp only: numeral.simps one_jsnum_def)
next
  case (Bit0 k)
  then show ?case by (simp only: numeral.simps Fin_plus)
next
  case (Bit1 k)
  then show ?case by (simp only: numeral.simps Fin_plus one_jsnum_def)
qed

lemma Math_sqrt_Fin [simp]: "0 \<le> a \<Longrightarrow> Math_sqrt (Fin a) = Fin (sqrt a)"
  by (simp add: Math_sqrt_def)

lemma Math_pow_Fin [simp]: "Math_pow (Fin a) n = Fin (a ^ n)"
  by (simp add: Math_pow_def)

lemma isNaN_simps [simp]: "isNaN NaN" "\<not> isNaN (Fin a)"
  by (simp_all add: isNaN_def)

section \<open>The placement at finite inputs\<close>

lemma quadrantAreas_Fin:
  "quadrantAreas (Fin cx, Fin cy) (Fin sw) (Fin sh) =
     [\<lparr>area = Fin (\<bar>cy\<bar> * \<bar>cx\<bar>), id' = 0\<rparr>,
      \<lparr>area = Fin (\<bar>cy\<bar> * \<bar>cx - sw\<bar>), id' = 1\<rparr>,
      \<lparr>area = Fin (\<bar>cx - sw\<bar> * \<bar>cy - sh\<bar>), id' = 2\<rparr>,
      \<lparr>area = Fin (\<bar>cy - sh\<bar> * \<bar>cx\<bar>), id' = 3\<rparr>]"
  by (simp add: quadrantAreas_def Let_def map_indexed_def getArea_def getPointDistance_def upt_rec)

lemma center_of_Fin:
  "center_of (Fin x) (Fin y) (Fin w) (Fin h) = (Fin (x + w / 2), Fin (y + h / 2))"
  by (simp add: center_of_def)

lemma quadrantIndex_four:
  "quadrantIndex [\<lparr>area = Fin a0, id' = i0\<rparr>, \<lparr>area = Fin a1, id' = i1\<rparr>,
                  \<lparr>area = Fin a2, id' = i2\<rparr>, \<lparr>area = Fin a3, id' = i3\<rparr>] =
     Inr (if a1 \<le> a0 \<and> a2 \<le> a0 \<and> a3 \<le> a0 then i0
          else if a2 \<le> a1 \<and> a3 \<le> a1 then i1
          else if a3 \<le> a2 then i2 else i3)"
  by (simp add: quadrantIndex_def)

lemma quadrantIndex_range:
  "\<exists>q. quadrantIndex (quadrantAreas (Fin cx, Fin cy) (Fin sw) (Fin sh)) = Inr q \<and> q < 4"
  by (simp add: quadrantAreas_Fin quadrantIndex_four)

lemma direction_cases:
  "q < 4 \<Longrightarrow> q = 0 \<or> q = 1 \<or> q = 2 \<or> q = (3::nat)"
  by arith

lemma getTooltipCoordinate_at:
  assumes "quadrantIndex (quadrantAreas (center_of x y w h) sw sh) = Inr q"
    and "index_read directionCorrection q = Some dc"
    and "index_read (displaceReferencePoint (convertDimensionToNumber tw ww)) q = Some drp"
  shows "getTooltipCoordinate ww x y w h sw sh tw wp =
     Inr \<lparr>coord_x = constraintX (preClampX wp (center_of x y w h) dc drp) q
                       (fst (center_of x y w h)) sw (convertDimensionToNumber tw ww),
          coord_y = snd (center_of x y w h) + (h / 2 * snd dc + snd drp)
                      + getWithPointerOffsetY wp dc\<rparr>"
  using assms by (simp add: getTooltipCoordinate_def Let_def)

lemma index_read_direction:
  "index_read directionCorrection 0 = Some (Fin (- 1), Fin (- 1))"
  "index_read directionCorrection 1 = Some (Fin 1, Fin (- 1))"
  "index_read directionCorrection 2 = Some (Fin 1, Fin 1)"
  "index_read directionCorrection 3 = Some (Fin (- 1), Fin 1)"
  by (simp_all add: index_read_def directionCorrection_def)

lemma index_read_displace:
  "index_read (displaceReferencePoint t) 0 = Some (- t, Fin 0)"
  "index_read (displaceReferencePoint t) 1 = Some (Fin 0, Fin 0)"
  "index_read (displaceReferencePoint t) 2 = Some (Fin 0, Fin 0)"
  "index_read (displaceReferencePoint t) 3 = Some (- t, Fin 0)"
  by (simp_all add: index_read_def displaceReferencePoint_def)

lemma convertDimensionToNumber_number [simp]:
  "convertDimensionToNumber (DimNumber n) ww = n"
  by (simp add: convertDimensionToNumber_def)

lemma spec_areas_eq:
  "spec_areas (cx, cy) sw sh =
     [\<bar>cy\<bar> * \<bar>cx\<bar>, \<bar>cy\<bar> * \<bar>cx - sw\<bar>, \<bar>cx - sw\<bar> * \<bar>cy - sh\<bar>, \<bar>cy - sh\<bar> * \<bar>cx\<bar>]"
  by (simp add: spec_areas_def Let_def spec_distance_def)

lemma spec_largest_four:
  "spec_largest [a0, a1, a2, a3] =
     Some (if a1 \<le> a0 \<and> a2 \<le> a0 \<and> a3 \<le> a0 then 0
           else if a2 \<le> a1 \<and> a3 \<le> a1 then 1
           else if a3 \<le> a2 then 2 else 3)"
  by (auto simp add: spec_largest_def upt_rec nth_Cons')

lemma four_cases:
  "\<exists>q. (if (A::bool) then 0 else if B then 1 else if C then 2 else (3::nat)) = q \<and> q < 4"
  by simp

lemma selection_agrees:
  "\<exists>q. spec_largest (spec_areas (cx, cy) sw sh) = Some q \<and> q < 4
      \<and> quadrantIndex (quadrantAreas (Fin cx, Fin cy) (Fin sw) (Fin sh)) = Inr q"
  unfolding spec_areas_eq spec_largest_four quadrantAreas_Fin quadrantIndex_four
  using four_cases by blast


lemma scenario_center:
  "center_of (Fin 20) (Fin 500) (Fin 100) (Fin 40) = (Fin 70, Fin 520)"
  by (simp add: center_of_Fin)

lemma scenario_index:
  "quadrantIndex (quadrantAreas (center_of (Fin 20) (Fin 500) (Fin 100) (Fin 40))
     (Fin 800) (Fin 1000)) = Inr 1"
  by (simp add: scenario_center quadrantAreas_Fin quadrantIndex_four)

lemma scenario_coordinate:
  "getTooltipCoordinate ww (Fin 20) (Fin 500) (Fin 100) (Fin 40) (Fin 800) (Fin 1000)
     (DimNumber (Fin 150)) True
   = Inr \<lparr>coord_x = Fin (52001 / 1000), coord_y = Fin 490\<rparr>"
  by (simp add: getTooltipCoordinate_at [OF scenario_index index_read_direction(2)
        index_read_displace(2)]
      scenario_center preClampX_def getWithPointerOffsetX_def getWithPointerOffsetY_def
      dX_def constraintX_def)

lemma quadrantIndex_cases:
  obtains q where
    "quadrantIndex (quadrantAreas (center_of (Fin x) (Fin y) (Fin w) (Fin h)) (Fin sw) (Fin sh))
       = Inr q"
    and "q = 0 \<or> q = 1 \<or> q = 2 \<or> q = 3"
proof -
  obtain q where "quadrantIndex (quadrantAreas (Fin (x + w / 2), Fin (y + h / 2)) (Fin sw) (Fin sh))
       = Inr q" and "q < 4"
    using quadrantIndex_range by blast
  then show ?thesis
    using that direction_cases by (simp add: center_of_Fin)
qed

lemma coordinate_left:
  assumes "quadrantIndex (quadrantAreas (center_of (Fin x) (Fin y) (Fin w) (Fin h)) (Fin sw) (Fin sh))
       = Inr q" and "q = 0 \<or> q = 3"
  shows "getTooltipCoordinate ww (Fin x) (Fin y) (Fin w) (Fin h) (Fin sw) (Fin sh)
           (DimNumber (Fin tw)) wp =
         Inr \<lparr>coord_x =
                 Fin (let newX = x + w / 2 + (if wp then 18 else 0) - 1 / 1000 - tw
                      in if newX < 1 then 10 else if newX > sw then sw - 10 else newX),
               coord_y =
                 Fin (y + h / 2 + (if q = 0 then - 1 else 1) * (h / 2 + (if wp then 10 else 0)))\<rparr>"
  using assms(2)
proof
  assume q: "q = 0"
  show ?thesis
    unfolding q
    by (simp add: getTooltipCoordinate_at [OF assms(1) [unfolded q] index_read_direction(1)
          index_read_displace(1)] center_of_Fin preClampX_def getWithPointerOffsetX_def
        getWithPointerOffsetY_def dX_def constraintX_def Let_def)
next
  assume q: "q = 3"
  show ?thesis
    unfolding q
    by (simp add: getTooltipCoordinate_at [OF assms(1) [unfolded q] index_read_direction(4)
          index_read_displace(4)] center_of_Fin preClampX_def getWithPointerOffsetX_def
        getWithPointerOffsetY_def dX_def constraintX_def Let_def)
qed

lemma coordinate_right:
  assumes "quadrantIndex (quadrantAreas (center_of (Fin x) (Fin y) (Fin w) (Fin h)) (Fin sw) (Fin sh))
       = Inr q" and "q = 1 \<or> q = 2"
  shows "getTooltipCoordinate ww (Fin x) (Fin y) (Fin w) (Fin h) (Fin sw) (Fin sh)
           (DimNumber (Fin tw)) wp =
         Inr \<lparr>coord_x =
                 Fin (let newX = x + w / 2 - (if wp then 18 else 0) + 1 / 1000
                      in if sw - newX \<ge> tw then newX else sw - tw - 10),
               coord_y =
                 Fin (y + h / 2 + (if q = 1 then - 1 else 1) * (h / 2 + (if wp then 10 else 0)))\<rparr>"
  using assms(2)
proof
  assume q: "q = 1"
  show ?thesis
    unfolding q
    by (simp add: getTooltipCoordinate_at [OF assms(1) [unfolded q] index_read_direction(2)
          index_read_displace(2)] center_of_Fin preClampX_def getWithPointerOffsetX_def
        getWithPointerOffsetY_def dX_def constraintX_def Let_def)
next
  assume q: "q = 2"
  show ?thesis
    unfolding q
    by (simp add: getTooltipCoordinate_at [OF assms(1) [unfolded q] index_read_direction(3)
          index_read_displace(3)] center_of_Fin preClampX_def getWithPointerOffsetX_def
        getWithPointerOffsetY_def dX_def constraintX_def Let_def)
qed



lemma coordinate_y:
  assumes "quadrantIndex (quadrantAreas (center_of (Fin x) (Fin y) (Fin w) (Fin h)) (Fin sw) (Fin sh))
       = Inr q" and "q = 0 \<or> q = 1 \<or> q = 2 \<or> q = 3"
  shows "\<exists>rx. getTooltipCoordinate ww (Fin x) (Fin y) (Fin w) (Fin h) (Fin sw) (Fin sh) tw wp
           = Inr \<lparr>coord_x = rx,
                  coord_y = Fin (y + h / 2 + (if q = 0 \<or> q = 1 then - 1 else 1)
                                   * (h / 2 + (if wp then 10 else 0)))\<rparr>"
  using assms(2)
proof (elim disjE)
  assume q: "q = 0"
  show ?thesis
    unfolding q
    by (simp add: getTooltipCoordinate_at [OF assms(1) [unfolded q] index_read_direction(1)
          index_read_displace(1)] center_of_Fin getWithPointerOffsetY_def)
next
  assume q: "q = 1"
  show ?thesis
    unfolding q
    by (simp add: getTooltipCoordinate_at [OF assms(1) [unfolded q] index_read_direction(2)
          index_read_displace(2)] center_of_Fin getWithPointerOffsetY_def)
next
  assume q: "q = 2"
  show ?thesis
    unfolding q
    by (simp add: getTooltipCoordinate_at [OF assms(1) [unfolded q] index_read_direction(3)
          index_read_displace(3)] center_of_Fin getWithPointerOffsetY_def)
next
  assume q: "q = 3"
  show ?thesis
    unfolding q
    by (simp add: getTooltipCoordinate_at [OF assms(1) [unfolded q] index_read_direction(4)
          index_read_displace(4)] center_of_Fin getWithPointerOffsetY_def)
qed

lemma coordinate_NaN_width:
  assumes "convertDimensionToNumber tw ww = NaN"
  shows "\<exists>ry. getTooltipCoordinate ww (Fin x) (Fin y) (Fin w) (Fin h) (Fin sw) (Fin sh) tw wp
           = Inr \<lparr>coord_x = NaN, coord_y = Fin ry\<rparr>"
proof -
  obtain q where q: "quadrantIndex (quadrantAreas (center_of (Fin x) (Fin y) (Fin w) (Fin h))
      (Fin sw) (Fin sh)) = Inr q" and cases: "q = 0 \<or> q = 1 \<or> q = 2 \<or> q = 3"
    by (rule quadrantIndex_cases)
  from cases show ?thesis
  proof (elim disjE)
    assume e: "q = 0"
    show ?thesis
      by (simp add: getTooltipCoordinate_at [OF q [unfolded e] index_read_direction(1)
            index_read_displace(1)] assms center_of_Fin getWithPointerOffsetY_def
          preClampX_def constraintX_def)
  next
    assume e: "q = 1"
    show ?thesis
      by (simp add: getTooltipCoordinate_at [OF q [unfolded e] index_read_direction(2)
            index_read_displace(2)] assms center_of_Fin getWithPointerOffsetY_def
          preClampX_def getWithPointerOffsetX_def dX_def constraintX_def)
  next
    assume e: "q = 2"
    show ?thesis
      by (simp add: getTooltipCoordinate_at [OF q [unfolded e] index_read_direction(3)
            index_read_displace(3)] assms center_of_Fin getWithPointerOffsetY_def
          preClampX_def getWithPointerOffsetX_def dX_def constraintX_def)
  next
    assume e: "q = 3"
    show ?thesis
      by (simp add: getTooltipCoordinate_at [OF q [unfolded e] index_read_direction(4)
            index_read_displace(4)] assms center_of_Fin getWithPointerOffsetY_def
          preClampX_def constraintX_def)
  qed
qed

lemma Number_of_string_abc: "Number_of_string ''abc'' = NaN"
  by (simp add: Number_of_string_def trim_def isStrWhiteSpaceChar_def splitSign_def
      StrMantissa_def StrExponent_def isDecimalDigit_def)

lemma Number_of_string_auto: "Number_of_string ''auto'' = NaN"
  by (simp add: Number_of_string_def trim_def isStrWhiteSpaceChar_def splitSign_def
      StrMantissa_def StrExponent_def isDecimalDigit_def)

lemma convert_abc_percent: "convertDimensionToNumber (DimString ''abc%'') ww = NaN"
  by (simp add: convertDimensionToNumber_def Number_of_string_abc)

lemma convert_auto: "convertDimensionToNumber (DimString ''auto'') ww = NaN"
  by (simp add: convertDimensionToNumber_def Number_of_string_auto)

lemma convert_percent: "convertDimensionToNumber (DimString ''50%'') (Fin 400) = Fin 200"
  by (simp add: convertDimensionToNumber_def Number_of_string_def trim_def
      isStrWhiteSpaceChar_def splitSign_def StrMantissa_def StrExponent_def isDecimalDigit_def
      DecimalDigits_def)

lemma degenerate_areas:
  "map area (quadrantAreas (center_of (Fin 0) (Fin 0) (Fin 0) (Fin 0)) (Fin sw) (Fin sh))
     = [Fin 0, Fin 0, Fin (\<bar>sw\<bar> * \<bar>sh\<bar>), Fin 0]"
  by (simp add: center_of_Fin quadrantAreas_Fin)

lemma degenerate_index:
  "quadrantIndex (quadrantAreas (center_of (Fin 0) (Fin 0) (Fin 0) (Fin 0)) (Fin sw) (Fin sh))
     = Inr (if sw = 0 \<or> sh = 0 then 0 else 2)"
proof -
  have "\<bar>sw\<bar> * \<bar>sh\<bar> \<le> 0 \<longleftrightarrow> sw = 0 \<or> sh = 0"
    by (auto simp add: mult_le_0_iff)
  then show ?thesis
    by (simp add: center_of_Fin quadrantAreas_Fin quadrantIndex_four)
qed

lemma coordinate_finite:
  "\<exists>rx ry. getTooltipCoordinate ww (Fin x) (Fin y) (Fin w) (Fin h) (Fin sw) (Fin sh)
              (DimNumber (Fin tw)) wp = Inr \<lparr>coord_x = Fin rx, coord_y = Fin ry\<rparr>"
proof -
  obtain q where q: "quadrantIndex (quadrantAreas (center_of (Fin x) (Fin y) (Fin w) (Fin h))
      (Fin sw) (Fin sh)) = Inr q" and cases: "q = 0 \<or> q = 1 \<or> q = 2 \<or> q = 3"
    by (rule quadrantIndex_cases)
  from cases consider (left) "q = 0 \<or> q = 3" | (right) "q = 1 \<or> q = 2"
    by blast
  then show ?thesis
  proof cases
    case left
    show ?thesis
      unfolding coordinate_left [OF q left] by blast
  next
    case right
    show ?thesis
      unfolding coordinate_right [OF q right] by blast
  qed
qed

lemma toggle_controlled:
  "isControlled p \<Longrightarrow> fst (toggleTooltip h p s) = s"
  by (simp add: toggleTooltip_def)

lemma toggle_uncontrolled:
  "\<not> isControlled p \<Longrightarrow> \<not> list_ex is_OnVisibilityChange (snd (toggleTooltip h p s))"
  by (simp add: toggleTooltip_def getElementPosition_def is_OnVisibilityChange_def)

lemma keepsMode_cong:
  "isControlled p = isControlled p' \<Longrightarrow> keepsMode p e = keepsMode p' e"
  by (simp add: keepsMode_def split: event.split)

lemma step_mode:
  assumes "keepsMode (props w) e"
  shows "isControlled (props (fst (step h w e))) = isControlled (props w)"
  using assms by (cases e) (simp_all add: keepsMode_def split: prod.split)

lemma step_controlled:
  assumes "keepsMode (props w) e" and "isControlled (props w)"
  shows "internalVisible (state (fst (step h w e))) = internalVisible (state w)"
  using assms
  by (cases e) (simp_all add: keepsMode_def toggle_controlled measured_def split: prod.split,
      metis fst_conv toggle_controlled)

lemma step_uncontrolled:
  assumes "\<not> isControlled (props w)"
  shows "\<not> list_ex is_OnVisibilityChange (snd (step h w e))"
  using assms toggle_uncontrolled [of "props w" h "state w"]
  by (cases e) (auto split: prod.split)

lemma run_lifetime:
  assumes "list_all (keepsMode (props w)) es"
  shows "isControlled (props (fst (run h w es))) = isControlled (props w)
    \<and> (isControlled (props w) \<longrightarrow>
         internalVisible (state (fst (run h w es))) = internalVisible (state w))
    \<and> (\<not> isControlled (props w) \<longrightarrow> \<not> list_ex is_OnVisibilityChange (snd (run h w es)))"
  using assms
proof (induction es arbitrary: w)
  case Nil
  show ?case by simp
next
  case (Cons e es)
  obtain w' cs where st: "step h w e = (w', cs)"
    by (cases "step h w e")
  obtain w'' cs' where rn: "run h w' es = (w'', cs')"
    by (cases "run h w' es")
  from Cons.prems have e: "keepsMode (props w) e" and es: "list_all (keepsMode (props w)) es"
    by simp_all
  have mode: "isControlled (props w') = isControlled (props w)"
    using step_mode [OF e, of h] st by simp
  then have "keepsMode (props w') = keepsMode (props w)"
    using keepsMode_cong by blast
  with es have "list_all (keepsMode (props w')) es"
    by simp
  note ih = Cons.IH [OF this, unfolded rn, simplified]
  have vis: "internalVisible (state w') = internalVisible (state w)" if "isControlled (props w)"
    using step_controlled [OF e that, of h] st by simp
  have calls: "\<not> list_ex is_OnVisibilityChange cs" if "\<not> isControlled (props w)"
    using step_uncontrolled [OF that, of h e] st by simp
  show ?case
    using ih mode vis calls by (simp add: st rn)
qed

section \<open>Rounding to binary64 at concrete numbers\<close>















lemma coordinate_y_identity:
  "coordinate_y_rounded (\<lambda>r. r) y h sy wp = y + h / 2 + sy * (h / 2 + (if wp then 10 else 0))"
  by (simp add: coordinate_y_rounded_def Let_def algebra_simps)

text \<open>With the identity as rounding, \<open>coordinate_y_rounded\<close> is the y of the exact
  model.\<close>

lemma coordinate_y_unrounded:
  assumes "quadrantIndex (quadrantAreas (center_of (Fin x) (Fin y) (Fin w) (Fin h)) (Fin sw) (Fin sh))
       = Inr q" and "q = 0 \<or> q = 1 \<or> q = 2 \<or> q = 3"
  shows "\<exists>rx. getTooltipCoordinate ww (Fin x) (Fin y) (Fin w) (Fin h) (Fin sw) (Fin sh) tw wp
           = Inr \<lparr>coord_x = rx,
                  coord_y = Fin (coordinate_y_rounded (\<lambda>r. r) y h
                                   (if q = 0 \<or> q = 1 then - 1 else 1) wp)\<rparr>"
  unfolding coordinate_y_identity using coordinate_y [OF assms] .


section \<open>The placement in exact arithmetic, without the pointer\<close>

text \<open>
  In exact arithmetic, for an anchor of height at least 0 and without the pointer, the y
  returned is the anchor's y for a top quadrant and the anchor's y plus its height for a
  bottom one, \<open>pastMiddleLine\<close> is false and the style is anchored at its top.
\<close>

lemma no_pointer_exact:
  assumes "0 \<le> h" and "withPointer p = False"
    and "xOffset s = Fin x" and "yOffset s = Fin y"
    and "elementWidth s = Fin w" and "elementHeight s = Fin h"
    and "ScreenWidth hst = Fin sw" and "ScreenHeight hst = Fin sh"
  shows "\<exists>q c st.
      quadrantIndex (quadrantAreas (center_of (Fin x) (Fin y) (Fin w) (Fin h)) (Fin sw) (Fin sh))
        = Inr q
    \<and> getTooltipCoordinate (windowWidth hst) (Fin x) (Fin y) (Fin w) (Fin h) (Fin sw) (Fin sh)
        (width p) False = Inr c
    \<and> coord_y c = Fin (if q = 0 \<or> q = 1 then y else y + h)
    \<and> Fin y \<le> coord_y c
    \<and> getTooltipStyle hst p s = Inr (st, False)
    \<and> style_top st = Some (coord_y c + statusBarOffset hst)
    \<and> style_bottom st = None"
proof -
  obtain q where q: "quadrantIndex (quadrantAreas (center_of (Fin x) (Fin y) (Fin w) (Fin h))
      (Fin sw) (Fin sh)) = Inr q" and cases: "q = 0 \<or> q = 1 \<or> q = 2 \<or> q = 3"
    by (rule quadrantIndex_cases)
  obtain rx where g: "getTooltipCoordinate (windowWidth hst) (Fin x) (Fin y) (Fin w) (Fin h)
      (Fin sw) (Fin sh) (width p) False
      = Inr \<lparr>coord_x = rx,
          coord_y = Fin (y + h / 2 + (if q = 0 \<or> q = 1 then - 1 else 1)
                                   * (h / 2 + (if False then 10 else 0)))\<rparr>"
    using coordinate_y [OF q cases] by blast
  define c where "c = \<lparr>coord_x = rx, coord_y = Fin (if q = 0 \<or> q = 1 then y else y + h)\<rparr>"
  have gc: "getTooltipCoordinate (windowWidth hst) (Fin x) (Fin y) (Fin w) (Fin h)
      (Fin sw) (Fin sh) (width p) False = Inr c"
    unfolding g c_def by simp
  have y: "coord_y c = Fin (if q = 0 \<or> q = 1 then y else y + h)"
    by (simp add: c_def)
  have le: "Fin y \<le> coord_y c"
    using assms(1) by (simp add: y)
  then have past: "\<not> coord_y c < Fin y"
    by (simp add: y)
  define st where "st = fst (case getTooltipStyle hst p s of Inr r \<Rightarrow> r)"
  have style: "getTooltipStyle hst p s = Inr (st, False) \<and>
      style_top st = Some (coord_y c + statusBarOffset hst) \<and> style_bottom st = None"
    unfolding st_def using past
    by (simp add: getTooltipStyle_def assms gc Let_def split: dimension.split)
  from q gc y le style show ?thesis
    by blast
qed

section \<open>The layout direction\<close>

text \<open>
  \<open>getTooltipStyle\<close> computes the same x, the same vertical placement and the same
  \<open>pastMiddleLine\<close> in both layout directions; the direction only decides whether x
  is written to \<open>left\<close> or to \<open>right\<close>. Where the host then draws the popover is
  not decided by this code.
\<close>

lemma getTooltipStyle_direction:
  assumes "width p = DimNumber (Fin tw)"
    and "xOffset s = Fin x" and "yOffset s = Fin y"
    and "elementWidth s = Fin w" and "elementHeight s = Fin h"
    and "ScreenWidth hst = Fin sw" and "ScreenHeight hst = Fin sh"
  shows "\<exists>ltr rtl b rx.
      getTooltipStyle (hst\<lparr>isRTL := False\<rparr>) p s = Inr (ltr, b)
    \<and> getTooltipStyle (hst\<lparr>isRTL := True\<rparr>) p s = Inr (rtl, b)
    \<and> style_left ltr = Some (Fin rx) \<and> style_right ltr = None
    \<and> style_right rtl = Some (Fin rx) \<and> style_left rtl = None
    \<and> style_top rtl = style_top ltr \<and> style_bottom rtl = style_bottom ltr"
proof -
  obtain rx ry where g: "getTooltipCoordinate (windowWidth hst) (Fin x) (Fin y) (Fin w) (Fin h)
      (Fin sw) (Fin sh) (DimNumber (Fin tw)) (withPointer p) = Inr \<lparr>coord_x = Fin rx, coord_y = Fin ry\<rparr>"
    using coordinate_finite by blast
  define ltr where "ltr = fst (case getTooltipStyle (hst\<lparr>isRTL := False\<rparr>) p s of Inr r \<Rightarrow> r)"
  define rtl where "rtl = fst (case getTooltipStyle (hst\<lparr>isRTL := True\<rparr>) p s of Inr r \<Rightarrow> r)"
  have l: "getTooltipStyle (hst\<lparr>isRTL := False\<rparr>) p s = Inr (ltr, y > ry)"
    unfolding ltr_def by (simp add: getTooltipStyle_def assms g Let_def)
  have r: "getTooltipStyle (hst\<lparr>isRTL := True\<rparr>) p s = Inr (rtl, y > ry)"
    unfolding rtl_def by (simp add: getTooltipStyle_def assms g Let_def)
  have fields: "style_left ltr = Some (Fin rx) \<and> style_right ltr = None
    \<and> style_right rtl = Some (Fin rx) \<and> style_left rtl = None
    \<and> style_top rtl = style_top ltr \<and> style_bottom rtl = style_bottom ltr
    \<and> style_width rtl = DimNumber (Fin tw)"
    unfolding ltr_def rtl_def
    by (simp add: getTooltipStyle_def assms g Let_def split: dimension.split bool.split)
  with l r show ?thesis
    by blast
qed

section \<open>The claims\<close>

subsection \<open>C3: the scenario of the anchor at (20, 500)\<close>

text \<open>
  Claim C3, as the code has it. For the anchor \<open>{x: 20, y: 500, width: 100, height: 40}\<close>
  in a viewport of 800 by 1000, with a popover of width 150 and height 40 and the pointer:
  the centre is (70, 520); the four areas are 36400, 379600, 350400 and 33600, so the
  top-right quadrant (index 1) is the largest and the bottom-left one the smallest; the
  coordinate is x = 52.001, which is 70 moved left by the pointer clearance and lies in
  [10, 650], and y = 520 - 20 - 10 = 490; \<open>pastMiddleLine\<close> is true, and the style's
  top is 490 - 40 plus the status bar offset.
\<close>

theorem C3_scenario:
  "map area (quadrantAreas (center_of (Fin 20) (Fin 500) (Fin 100) (Fin 40)) (Fin 800) (Fin 1000))
     = [Fin 36400, Fin 379600, Fin 350400, Fin 33600]
   \<and> quadrantIndex (quadrantAreas (center_of (Fin 20) (Fin 500) (Fin 100) (Fin 40))
        (Fin 800) (Fin 1000)) = Inr 1
   \<and> getTooltipCoordinate ww (Fin 20) (Fin 500) (Fin 100) (Fin 40) (Fin 800) (Fin 1000)
        (DimNumber (Fin 150)) True
       = Inr \<lparr>coord_x = Fin (52001 / 1000), coord_y = Fin 490\<rparr>
   \<and> getTooltipStyle
        \<lparr>isRTL = False, isIOS = ios, ScreenWidth = Fin 800, ScreenHeight = Fin 1000,
         statusBarOffset = Fin off, windowWidth = ww\<rparr>
        \<lparr>withPointer = True, height = DimNumber (Fin 40), width = DimNumber (Fin 150),
         isVisibleProp = v, onVisibilityChange = cb\<rparr>
        \<lparr>internalVisible = iv, yOffset = Fin 500, xOffset = Fin 20, elementWidth = Fin 100,
         elementHeight = Fin 40, renderedElement = r\<rparr>
       = Inr (\<lparr>style_left = Some (Fin (52001 / 1000)), style_right = None,
               style_width = DimNumber (Fin 150), style_height = DimNumber (Fin 40),
               style_top = Some (Fin (450 + off)), style_bottom = None\<rparr>, True)
   \<and> (10::real) \<le> 52001 / 1000 \<and> (52001::real) / 1000 \<le> 650 \<and> (52001::real) / 1000 < 70"
  by (simp add: scenario_index scenario_coordinate getTooltipStyle_def)
    (simp add: scenario_center quadrantAreas_Fin)

text \<open>
  The claim as stated fails there: the chosen quadrant is not the bottom-left one
  (index 3), \<open>pastMiddleLine\<close> is not false, and the returned y is not 550.
\<close>

theorem C3_counterexample:
  "quadrantIndex (quadrantAreas (center_of (Fin 20) (Fin 500) (Fin 100) (Fin 40))
        (Fin 800) (Fin 1000)) \<noteq> Inr 3
   \<and> map_sum id snd (getTooltipStyle
        \<lparr>isRTL = False, isIOS = False, ScreenWidth = Fin 800, ScreenHeight = Fin 1000,
         statusBarOffset = Fin 0, windowWidth = Fin 800\<rparr>
        \<lparr>withPointer = True, height = DimNumber (Fin 40), width = DimNumber (Fin 150),
         isVisibleProp = None, onVisibilityChange = False\<rparr>
        \<lparr>internalVisible = True, yOffset = Fin 500, xOffset = Fin 20, elementWidth = Fin 100,
         elementHeight = Fin 40, renderedElement = True\<rparr>) \<noteq> Inr False
   \<and> map_sum id coord_y (getTooltipCoordinate (Fin 800) (Fin 20) (Fin 500) (Fin 100) (Fin 40)
        (Fin 800) (Fin 1000) (DimNumber (Fin 150)) True) \<noteq> Inr (Fin 550)"
  by (simp add: scenario_index scenario_coordinate getTooltipStyle_def)

subsection \<open>C2: the areas and the choice of the quadrant\<close>

text \<open>
  Claim C2. For every anchor and viewport (finite numbers), the four areas that
  \<open>getTooltipCoordinate\<close> computes are, in the order top-left, top-right, bottom-right,
  bottom-left, the products of the Euclidean distances from the centre
  \<open>(x + width/2, y + height/2)\<close> to the two adjacent edge points, as the design words
  them (\<open>spec_areas\<close>); they carry the indices 0 to 3; and sorting them by decreasing
  area and taking the first entry selects the first quadrant, in that order, whose area
  is the largest (\<open>spec_largest\<close>). The coordinate returned is the one placed in the
  direction of that quadrant.
\<close>

theorem C2_quadrant_selection:
  "map area (quadrantAreas (center_of (Fin x) (Fin y) (Fin w) (Fin h)) (Fin sw) (Fin sh))
     = map Fin (spec_areas (x + w / 2, y + h / 2) sw sh)
   \<and> map id' (quadrantAreas (center_of (Fin x) (Fin y) (Fin w) (Fin h)) (Fin sw) (Fin sh))
     = [0, 1, 2, 3]
   \<and> (\<exists>q dc drp.
         spec_largest (spec_areas (x + w / 2, y + h / 2) sw sh) = Some q
       \<and> quadrantIndex (quadrantAreas (center_of (Fin x) (Fin y) (Fin w) (Fin h)) (Fin sw) (Fin sh))
           = Inr q
       \<and> index_read directionCorrection q = Some dc
       \<and> index_read (displaceReferencePoint (convertDimensionToNumber tw ww)) q = Some drp
       \<and> getTooltipCoordinate ww (Fin x) (Fin y) (Fin w) (Fin h) (Fin sw) (Fin sh) tw wp
           = Inr \<lparr>coord_x =
                    constraintX (preClampX wp (center_of (Fin x) (Fin y) (Fin w) (Fin h)) dc drp)
                      q (fst (center_of (Fin x) (Fin y) (Fin w) (Fin h))) (Fin sw)
                      (convertDimensionToNumber tw ww),
                  coord_y =
                    snd (center_of (Fin x) (Fin y) (Fin w) (Fin h))
                      + (Fin h / 2 * snd dc + snd drp)
                      + getWithPointerOffsetY wp dc\<rparr>)"
proof -
  let ?c = "center_of (Fin x) (Fin y) (Fin w) (Fin h)"
  let ?as = "quadrantAreas ?c (Fin sw) (Fin sh)"
  let ?t = "convertDimensionToNumber tw ww"
  have c: "?c = (Fin (x + w / 2), Fin (y + h / 2))"
    by (rule center_of_Fin)
  have areas: "map area ?as = map Fin (spec_areas (x + w / 2, y + h / 2) sw sh)"
    unfolding c quadrantAreas_Fin spec_areas_eq by simp
  have ids: "map id' ?as = [0, 1, 2, 3]"
    unfolding c quadrantAreas_Fin by simp
  obtain q where q: "spec_largest (spec_areas (x + w / 2, y + h / 2) sw sh) = Some q"
    and q4: "q < 4" and qi: "quadrantIndex ?as = Inr q"
    unfolding c using selection_agrees by blast
  from q4 have "q = 0 \<or> q = 1 \<or> q = 2 \<or> q = 3"
    by (rule direction_cases)
  then obtain dc drp where dc: "index_read directionCorrection q = Some dc"
    and drp: "index_read (displaceReferencePoint ?t) q = Some drp"
    using index_read_direction index_read_displace [of ?t] by auto
  note g = getTooltipCoordinate_at [OF qi dc drp, of wp]
  from areas ids q qi dc drp g show ?thesis
    by blast
qed

subsection \<open>C1: the clamped x and the screen\<close>




subsection \<open>C6: a malformed width\<close>

text \<open>
  Claim C6, as the code has it. Nothing validates the configuration: the widths
  \<open>'abc%'\<close> and \<open>'auto'\<close> are converted to \<open>NaN\<close>, and whenever the width converts
  to \<open>NaN\<close>, \<open>getTooltipCoordinate\<close> raises no error and returns \<open>NaN\<close> as x; the
  y it returns is a finite number. (The height is no argument of
  \<open>getTooltipCoordinate\<close>.)
\<close>

theorem C6_malformed_width:
  "convertDimensionToNumber (DimString ''abc%'') ww = NaN
   \<and> convertDimensionToNumber (DimString ''auto'') ww = NaN
   \<and> (isNaN (convertDimensionToNumber tw ww) \<longrightarrow>
        (\<exists>ry. getTooltipCoordinate ww (Fin x) (Fin y) (Fin w) (Fin h) (Fin sw) (Fin sh) tw wp
           = Inr \<lparr>coord_x = NaN, coord_y = Fin ry\<rparr>))"
proof -
  have "convertDimensionToNumber tw ww = NaN" if "isNaN (convertDimensionToNumber tw ww)"
    using that by (cases "convertDimensionToNumber tw ww") simp_all
  then show ?thesis
    using coordinate_NaN_width [of tw ww x y w h sw sh wp] convert_abc_percent convert_auto
    by blast
qed

theorem C6_malformed_width_witness:
  "isNaN (convertDimensionToNumber (DimString ''abc%'') (Fin 400))
   \<and> (\<exists>ry. getTooltipCoordinate (Fin 400) (Fin 20) (Fin 500) (Fin 100) (Fin 40) (Fin 400)
              (Fin 800) (DimString ''abc%'') True
           = Inr \<lparr>coord_x = NaN, coord_y = Fin ry\<rparr>)"
  using C6_malformed_width [of "Fin 400" "DimString ''abc%''" 20 500 100 40 400 800 True]
  by simp

text \<open>
  The claim as stated fails: at the widths \<open>'auto'\<close> and \<open>'abc%'\<close> the function
  returns normally, and the x it returns is \<open>NaN\<close>.
\<close>

theorem C6_counterexample:
  "map_sum id coord_x (getTooltipCoordinate (Fin 800) (Fin 20) (Fin 500) (Fin 100) (Fin 40)
      (Fin 800) (Fin 1000) (DimString ''auto'') True) = Inr NaN
   \<and> map_sum id coord_x (getTooltipCoordinate (Fin 800) (Fin 20) (Fin 500) (Fin 100) (Fin 40)
      (Fin 800) (Fin 1000) (DimString ''abc%'') True) = Inr NaN"
proof -
  obtain ry where "getTooltipCoordinate (Fin 800) (Fin 20) (Fin 500) (Fin 100) (Fin 40)
      (Fin 800) (Fin 1000) (DimString ''auto'') True = Inr \<lparr>coord_x = NaN, coord_y = Fin ry\<rparr>"
    using coordinate_NaN_width [OF convert_auto] by blast
  moreover obtain ry' where "getTooltipCoordinate (Fin 800) (Fin 20) (Fin 500) (Fin 100) (Fin 40)
      (Fin 800) (Fin 1000) (DimString ''abc%'') True = Inr \<lparr>coord_x = NaN, coord_y = Fin ry'\<rparr>"
    using coordinate_NaN_width [OF convert_abc_percent] by blast
  ultimately show ?thesis
    by simp
qed

subsection \<open>C7: the displacement in the direction of the quadrant\<close>

text \<open>
  Claim C7, as the code has it. Let \<open>(sx, sy)\<close> be the direction of the chosen quadrant
  and \<open>rx\<close> the displacement of the reference point (\<open>- tooltipWidth\<close> for the left
  quadrants, 0 for the right ones). The x before clamping is the reference point
  \<open>x + width/2 + rx\<close> plus \<open>0.001 * sx\<close>, and with the pointer it is moved by 18
  against the horizontal sign of the quadrant: minus \<open>18 * sx\<close>. The returned y is the
  centre's y plus \<open>height/2 * sy\<close>, plus \<open>10 * sy\<close> exactly when the pointer is on.
\<close>

theorem C7_displacement:
  "\<exists>q sx sy rx.
      quadrantIndex (quadrantAreas (center_of (Fin x) (Fin y) (Fin w) (Fin h)) (Fin sw) (Fin sh))
        = Inr q
    \<and> index_read directionCorrection q = Some (Fin sx, Fin sy)
    \<and> index_read (displaceReferencePoint (Fin tw)) q = Some (Fin rx, Fin 0)
    \<and> (sx = 1 \<or> sx = - 1) \<and> (sy = 1 \<or> sy = - 1)
    \<and> preClampX wp (center_of (Fin x) (Fin y) (Fin w) (Fin h)) (Fin sx, Fin sy) (Fin rx, Fin 0)
        = Fin ((x + w / 2 + rx) + (1 / 1000 * sx - (if wp then 18 * sx else 0)))
    \<and> getTooltipCoordinate ww (Fin x) (Fin y) (Fin w) (Fin h) (Fin sw) (Fin sh)
          (DimNumber (Fin tw)) wp
        = Inr \<lparr>coord_x =
                 constraintX
                   (preClampX wp (center_of (Fin x) (Fin y) (Fin w) (Fin h)) (Fin sx, Fin sy)
                      (Fin rx, Fin 0))
                   q (Fin (x + w / 2)) (Fin sw) (Fin tw),
               coord_y = Fin ((y + h / 2) + (h / 2 * sy + (if wp then 10 * sy else 0)))\<rparr>"
proof -
  let ?c = "center_of (Fin x) (Fin y) (Fin w) (Fin h)"
  obtain q where q: "quadrantIndex (quadrantAreas ?c (Fin sw) (Fin sh)) = Inr q"
    and cases: "q = 0 \<or> q = 1 \<or> q = 2 \<or> q = 3"
    by (rule quadrantIndex_cases)
  have pre: "preClampX wp ?c (Fin sx, Fin sy) (Fin rx, Fin 0)
      = Fin ((x + w / 2 + rx) + (1 / 1000 * sx - (if wp then 18 * sx else 0)))" for sx sy rx
    by (simp add: preClampX_def getWithPointerOffsetX_def dX_def center_of_Fin)
  have res: "getTooltipCoordinate ww (Fin x) (Fin y) (Fin w) (Fin h) (Fin sw) (Fin sh)
          (DimNumber (Fin tw)) wp
        = Inr \<lparr>coord_x = constraintX (preClampX wp ?c (Fin sx, Fin sy) (Fin rx, Fin 0))
                   q (Fin (x + w / 2)) (Fin sw) (Fin tw),
               coord_y = Fin ((y + h / 2) + (h / 2 * sy + (if wp then 10 * sy else 0)))\<rparr>"
    if "index_read directionCorrection q = Some (Fin sx, Fin sy)"
      and "index_read (displaceReferencePoint (Fin tw)) q = Some (Fin rx, Fin 0)" for sx sy rx
    using that
    by (simp add: getTooltipCoordinate_at [OF q, where ww = ww and tw = "DimNumber (Fin tw)"]
        getWithPointerOffsetY_def) (simp add: center_of_Fin)
  from cases show ?thesis
  proof (elim disjE)
    assume "q = 0"
    then have "index_read directionCorrection q = Some (Fin (- 1), Fin (- 1))"
      and "index_read (displaceReferencePoint (Fin tw)) q = Some (Fin (- tw), Fin 0)"
      using index_read_direction index_read_displace [of "Fin tw"] by simp_all
    with q pre res show ?thesis by fastforce
  next
    assume "q = 1"
    then have "index_read directionCorrection q = Some (Fin 1, Fin (- 1))"
      and "index_read (displaceReferencePoint (Fin tw)) q = Some (Fin 0, Fin 0)"
      using index_read_direction index_read_displace [of "Fin tw"] by simp_all
    with q pre res show ?thesis by fastforce
  next
    assume "q = 2"
    then have "index_read directionCorrection q = Some (Fin 1, Fin 1)"
      and "index_read (displaceReferencePoint (Fin tw)) q = Some (Fin 0, Fin 0)"
      using index_read_direction index_read_displace [of "Fin tw"] by simp_all
    with q pre res show ?thesis by fastforce
  next
    assume "q = 3"
    then have "index_read directionCorrection q = Some (Fin (- 1), Fin 1)"
      and "index_read (displaceReferencePoint (Fin tw)) q = Some (Fin (- tw), Fin 0)"
      using index_read_direction index_read_displace [of "Fin tw"] by simp_all
    with q pre res show ?thesis by fastforce
  qed
qed

text \<open>
  The claim as stated, with the 18 added in the sign of the quadrant, fails at the
  anchor \<open>{x: 20, y: 500, width: 100, height: 40}\<close> in the 800 by 1000 viewport: the
  quadrant is the top-right one, its horizontal sign is +1, and the x before clamping
  is 52.001, not 70 + 0.001 + 18.
\<close>

theorem C7_counterexample:
  "quadrantIndex (quadrantAreas (center_of (Fin 20) (Fin 500) (Fin 100) (Fin 40)) (Fin 800) (Fin 1000))
     = Inr 1
   \<and> index_read directionCorrection 1 = Some (Fin 1, Fin (- 1))
   \<and> index_read (displaceReferencePoint (Fin 150)) 1 = Some (Fin 0, Fin 0)
   \<and> preClampX True (center_of (Fin 20) (Fin 500) (Fin 100) (Fin 40)) (Fin 1, Fin (- 1))
         (Fin 0, Fin 0)
       \<noteq> Fin ((20 + 100 / 2 + 0) + (1 / 1000 * 1 + 18 * 1))"
  using scenario_index index_read_direction(2) index_read_displace(2) [of "Fin 150"]
  by (simp add: preClampX_def getWithPointerOffsetX_def dX_def center_of_Fin)

subsection \<open>C9: degenerate geometry\<close>

text \<open>
  Claim C9. With the anchor geometry all zero (the state before the first measurement)
  and any finite viewport and popover width, zero included, \<open>getTooltipCoordinate\<close>
  raises no fault: the selection returns an index below 4 and the coordinates are finite
  numbers; the areas are 0, 0, \<open>|viewportWidth| * |viewportHeight|\<close> and 0. In a viewport
  of positive size that the popover fits, the bottom-right quadrant is chosen and the
  coordinate is the top-left corner of the screen up to the fixed constants:
  x = -17.999 and y = 10 with the pointer, x = 0.001 and y = 0 without. (The source
  divides by the literals 2 and 100 only.)
\<close>

theorem C9_degenerate:
  "(\<exists>q rx ry.
       quadrantIndex (quadrantAreas (center_of (Fin 0) (Fin 0) (Fin 0) (Fin 0)) (Fin sw) (Fin sh))
         = Inr q
     \<and> q < 4
     \<and> getTooltipCoordinate ww (Fin 0) (Fin 0) (Fin 0) (Fin 0) (Fin sw) (Fin sh)
          (DimNumber (Fin tw)) wp = Inr \<lparr>coord_x = Fin rx, coord_y = Fin ry\<rparr>)
   \<and> map area (quadrantAreas (center_of (Fin 0) (Fin 0) (Fin 0) (Fin 0)) (Fin sw) (Fin sh))
       = [Fin 0, Fin 0, Fin (\<bar>sw\<bar> * \<bar>sh\<bar>), Fin 0]
   \<and> (0 < sw \<and> 0 < sh \<and> 0 \<le> tw \<and> tw + 1 / 1000 \<le> sw \<longrightarrow>
        quadrantIndex (quadrantAreas (center_of (Fin 0) (Fin 0) (Fin 0) (Fin 0)) (Fin sw) (Fin sh))
          = Inr 2
      \<and> getTooltipCoordinate ww (Fin 0) (Fin 0) (Fin 0) (Fin 0) (Fin sw) (Fin sh)
          (DimNumber (Fin tw)) wp
          = Inr \<lparr>coord_x = Fin (if wp then - 17999 / 1000 else 1 / 1000),
                 coord_y = Fin (if wp then 10 else 0)\<rparr>)"
proof -
  let ?q = "quadrantIndex (quadrantAreas (center_of (Fin 0) (Fin 0) (Fin 0) (Fin 0)) (Fin sw) (Fin sh))"
  let ?g = "getTooltipCoordinate ww (Fin 0) (Fin 0) (Fin 0) (Fin 0) (Fin sw) (Fin sh)
          (DimNumber (Fin tw)) wp"
  have total: "\<exists>q rx ry. ?q = Inr q \<and> q < 4 \<and> ?g = Inr \<lparr>coord_x = Fin rx, coord_y = Fin ry\<rparr>"
    using coordinate_finite [of ww 0 0 0 0 sw sh tw wp] degenerate_index [of sw sh]
    by auto
  have corner: "?q = Inr 2 \<and> ?g = Inr \<lparr>coord_x = Fin (if wp then - 17999 / 1000 else 1 / 1000),
                 coord_y = Fin (if wp then 10 else 0)\<rparr>"
    if "0 < sw" "0 < sh" "0 \<le> tw" "tw + 1 / 1000 \<le> sw"
  proof -
    from that have q: "?q = Inr 2"
      by (simp add: degenerate_index)
    show ?thesis
      using that by (simp add: q coordinate_right [OF q])
  qed
  from total degenerate_areas corner show ?thesis
    by blast
qed

theorem C9_degenerate_witness:
  "(0::real) < 400 \<and> (0::real) < 800 \<and> (0::real) \<le> 0 \<and> (0::real) + 1 / 1000 \<le> 400
   \<and> quadrantIndex (quadrantAreas (center_of (Fin 0) (Fin 0) (Fin 0) (Fin 0)) (Fin 400) (Fin 800))
       = Inr 2
   \<and> getTooltipCoordinate (Fin 400) (Fin 0) (Fin 0) (Fin 0) (Fin 0) (Fin 400) (Fin 800)
        (DimNumber (Fin 0)) True
       = Inr \<lparr>coord_x = Fin (- 17999 / 1000), coord_y = Fin 10\<rparr>"
  using C9_degenerate [of 400 800 "Fin 400" 0 True] by simp

subsection \<open>C10: without the pointer, in binary64\<close>


subsection \<open>C5: the trigger\<close>

text \<open>
  Claim C5. With the ref attached, every call of \<open>toggleTooltip\<close> first requests the
  measurement of the anchor; then, in controlled mode, it calls \<open>onVisibilityChange\<close>
  (when supplied) with the negation of the current visibility and leaves the state as
  it is; in uncontrolled mode it flips the internal boolean; and in both modes it calls
  \<open>onClose\<close> exactly when the visibility before the call was true and the platform is
  not iOS.
\<close>

theorem C5_toggle:
  assumes "renderedElement s"
  shows "snd (toggleTooltip h p s) =
      MeasureInWindow
        # (if isControlled p \<and> onVisibilityChange p
           then [OnVisibilityChange (\<not> isVisible p s)] else [])
        @ (if isVisible p s \<and> \<not> isIOS h then [OnClose] else [])
    \<and> fst (toggleTooltip h p s) =
        (if isControlled p then s else s\<lparr>internalVisible := \<not> isVisible p s\<rparr>)"
  using assms
  by (simp add: toggleTooltip_def getElementPosition_def isControlled_def isVisible_def
      split: option.split)

theorem C5_toggle_witness:
  "renderedElement (initialState\<lparr>renderedElement := True\<rparr>)
   \<and> snd (toggleTooltip
        \<lparr>isRTL = False, isIOS = False, ScreenWidth = 400, ScreenHeight = 800,
         statusBarOffset = 0, windowWidth = 400\<rparr>
        (defaultProps\<lparr>isVisibleProp := Some True, onVisibilityChange := True\<rparr>)
        (initialState\<lparr>renderedElement := True\<rparr>))
       = [MeasureInWindow, OnVisibilityChange False, OnClose]
   \<and> fst (toggleTooltip
        \<lparr>isRTL = False, isIOS = False, ScreenWidth = 400, ScreenHeight = 800,
         statusBarOffset = 0, windowWidth = 400\<rparr>
        (defaultProps\<lparr>isVisibleProp := Some True, onVisibilityChange := True\<rparr>)
        (initialState\<lparr>renderedElement := True\<rparr>))
       = initialState\<lparr>renderedElement := True\<rparr>"
  using C5_toggle [of "initialState\<lparr>renderedElement := True\<rparr>"
      "\<lparr>isRTL = False, isIOS = False, ScreenWidth = 400, ScreenHeight = 800,
         statusBarOffset = 0, windowWidth = 400\<rparr>"
      "defaultProps\<lparr>isVisibleProp := Some True, onVisibilityChange := True\<rparr>"]
  by (simp add: isControlled_def isVisible_def defaultProps_def initialState_def)

subsection \<open>C4: controlled and uncontrolled mode\<close>

text \<open>
  Claim C4, as the code has it. The mode is computed from the current props at every
  render. Over a lifetime in which every render keeps the mode of the first props
  (\<open>keepsMode\<close>), the mode never changes; if it is controlled the internal boolean
  never changes, and if it is uncontrolled \<open>onVisibilityChange\<close> is never called.
  For a single call of \<open>toggleTooltip\<close>: in controlled mode the state is left as it
  is, and in uncontrolled mode \<open>onVisibilityChange\<close> is not called.
\<close>

theorem C4_visibility_mode:
  "(list_all (keepsMode (props w)) es \<longrightarrow>
      isControlled (props (fst (run h w es))) = isControlled (props w)
    \<and> (isControlled (props w) \<longrightarrow>
         internalVisible (state (fst (run h w es))) = internalVisible (state w))
    \<and> (\<not> isControlled (props w) \<longrightarrow> \<not> list_ex is_OnVisibilityChange (snd (run h w es))))
   \<and> (isControlled p \<longrightarrow> fst (toggleTooltip h p s) = s)
   \<and> (\<not> isControlled p \<longrightarrow> \<not> list_ex is_OnVisibilityChange (snd (toggleTooltip h p s)))"
  using run_lifetime [of w es h] toggle_controlled [of p h s] toggle_uncontrolled [of p h s]
  by blast

theorem C4_visibility_mode_witness:
  "list_all (keepsMode (defaultProps\<lparr>isVisibleProp := Some True, onVisibilityChange := True\<rparr>))
     [Trigger, Render (defaultProps\<lparr>isVisibleProp := Some False, onVisibilityChange := True\<rparr>),
      Measured 20 500 100 40, Trigger]
   \<and> isControlled (defaultProps\<lparr>isVisibleProp := Some True, onVisibilityChange := True\<rparr>)
   \<and> isControlled (props (fst (run
         \<lparr>isRTL = False, isIOS = False, ScreenWidth = 400, ScreenHeight = 800,
          statusBarOffset = 0, windowWidth = 400\<rparr>
         \<lparr>props = defaultProps\<lparr>isVisibleProp := Some True, onVisibilityChange := True\<rparr>,
          state = initialState\<lparr>renderedElement := True\<rparr>\<rparr>
         [Trigger, Render (defaultProps\<lparr>isVisibleProp := Some False, onVisibilityChange := True\<rparr>),
          Measured 20 500 100 40, Trigger])))
   \<and> internalVisible (state (fst (run
         \<lparr>isRTL = False, isIOS = False, ScreenWidth = 400, ScreenHeight = 800,
          statusBarOffset = 0, windowWidth = 400\<rparr>
         \<lparr>props = defaultProps\<lparr>isVisibleProp := Some True, onVisibilityChange := True\<rparr>,
          state = initialState\<lparr>renderedElement := True\<rparr>\<rparr>
         [Trigger, Render (defaultProps\<lparr>isVisibleProp := Some False, onVisibilityChange := True\<rparr>),
          Measured 20 500 100 40, Trigger]))) = False
   \<and> list_all (keepsMode defaultProps) [Trigger, Render defaultProps, Trigger]
   \<and> \<not> isControlled defaultProps
   \<and> \<not> list_ex is_OnVisibilityChange (snd (run
         \<lparr>isRTL = False, isIOS = False, ScreenWidth = 400, ScreenHeight = 800,
          statusBarOffset = 0, windowWidth = 400\<rparr>
         \<lparr>props = defaultProps, state = initialState\<lparr>renderedElement := True\<rparr>\<rparr>
         [Trigger, Render defaultProps, Trigger]))"
proof -
  let ?h = "\<lparr>isRTL = False, isIOS = False, ScreenWidth = 400, ScreenHeight = 800,
          statusBarOffset = 0, windowWidth = 400\<rparr>"
  let ?p = "defaultProps\<lparr>isVisibleProp := Some True, onVisibilityChange := True\<rparr>"
  let ?es = "[Trigger, Render (defaultProps\<lparr>isVisibleProp := Some False, onVisibilityChange := True\<rparr>),
      Measured 20 500 100 40, Trigger]"
  let ?w = "\<lparr>props = ?p, state = initialState\<lparr>renderedElement := True\<rparr>\<rparr>"
  let ?w' = "\<lparr>props = defaultProps, state = initialState\<lparr>renderedElement := True\<rparr>\<rparr>"
  let ?es' = "[Trigger, Render defaultProps, Trigger]"
  have a: "list_all (keepsMode ?p) ?es" and b: "isControlled ?p"
    by (simp_all add: keepsMode_def isControlled_def defaultProps_def)
  have c: "list_all (keepsMode defaultProps) ?es'" and d: "\<not> isControlled defaultProps"
    by (simp_all add: keepsMode_def isControlled_def defaultProps_def)
  have iv: "internalVisible (state ?w) = False"
    by (simp add: initialState_def)
  from C4_visibility_mode [of ?w ?es ?h] a b iv
  have "isControlled (props (fst (run ?h ?w ?es)))"
    and "internalVisible (state (fst (run ?h ?w ?es))) = False"
    by simp_all
  moreover from C4_visibility_mode [of ?w' ?es' ?h] c d
  have "\<not> list_ex is_OnVisibilityChange (snd (run ?h ?w' ?es'))"
    by simp
  ultimately show ?thesis
    using a b c d by simp
qed

text \<open>
  The claim as stated fails: a widget first rendered with \<open>isVisible = false\<close> and then
  rendered again without \<open>isVisible\<close> has changed its mode, and the next trigger
  changes its internal boolean.
\<close>

theorem C4_counterexample:
  "isControlled (props (fst (run
       \<lparr>isRTL = False, isIOS = False, ScreenWidth = 400, ScreenHeight = 800,
        statusBarOffset = 0, windowWidth = 400\<rparr>
       \<lparr>props = defaultProps\<lparr>isVisibleProp := Some False\<rparr>,
        state = initialState\<lparr>renderedElement := True\<rparr>\<rparr>
       [Render defaultProps])))
     \<noteq> isControlled (defaultProps\<lparr>isVisibleProp := Some False\<rparr>)
   \<and> internalVisible (state (fst (run
       \<lparr>isRTL = False, isIOS = False, ScreenWidth = 400, ScreenHeight = 800,
        statusBarOffset = 0, windowWidth = 400\<rparr>
       \<lparr>props = defaultProps\<lparr>isVisibleProp := Some False\<rparr>,
        state = initialState\<lparr>renderedElement := True\<rparr>\<rparr>
       [Render defaultProps, Trigger])))
     \<noteq> internalVisible (initialState\<lparr>renderedElement := True\<rparr>)"
  by (simp add: isControlled_def defaultProps_def initialState_def toggleTooltip_def)

end
